theory Spec2Isabelle
  imports Complex_Main
begin

section \<open>The IRLS MAP solver of the super-resolution library\<close>

text \<open>
  This theory embeds \<^verbatim>\<open>src/solvers/irls_map_solver.cpp\<close> and
  \<^verbatim>\<open>src/optimization/alglib_irls_objective.cpp\<close>.

  Conventions of the embedding:
  \<^item> a C++ \<^verbatim>\<open>double\<close> is a \<^typ>\<open>real\<close>: rounding is not modelled, the
    statements are about the arithmetic the code writes down;
  \<^item> a \<^verbatim>\<open>const double*\<close> is a \<^typ>\<open>real list option\<close>, the null pointer
    being \<^term>\<open>None\<close>; a \<^verbatim>\<open>std::vector<double>\<close> and an ALGLIB
    \<^verbatim>\<open>real_1d_array\<close> are \<^typ>\<open>real list\<close>;
  \<^item> a fatal check, a thrown exception and a read or write outside a vector are values
    of the type \<open>error\<close>; every function that can reach one returns \<open>error + 'a\<close>;
  \<^item> sizes and loop counters are natural numbers, indices that the code receives as
    \<^verbatim>\<open>int\<close> parameters are integers;
  \<^item> the classes whose code is not part of the two files (\<^verbatim>\<open>ImageData\<close>,
    \<^verbatim>\<open>ImageModel\<close>, the \<^verbatim>\<open>Regularizer\<close> family, the ALGLIB minimizer) are
    parameters: records of their member functions, or function arguments.
\<close>

subsection \<open>Failures\<close>

datatype error =
    CheckNotNullFailed  \<comment> \<open>\<^verbatim>\<open>CHECK_NOTNULL\<close> on a null pointer (fatal)\<close>
  | OutOfRange          \<comment> \<open>\<^verbatim>\<open>std::vector::at\<close> outside the vector (throws)\<close>
  | OutOfBounds         \<comment> \<open>unchecked \<^verbatim>\<open>operator[]\<close> outside the array (undefined behaviour)\<close>
  | DivisionByZero      \<comment> \<open>integer division by a zero scale\<close>

definition and_then :: "error + 'a \<Rightarrow> ('a \<Rightarrow> error + 'b) \<Rightarrow> error + 'b" where
  "and_then r f = (case r of Inl e \<Rightarrow> Inl e | Inr x \<Rightarrow> f x)"

definition CHECK_NOTNULL :: "'a option \<Rightarrow> error + 'a" where
  "CHECK_NOTNULL p = (case p of None \<Rightarrow> Inl CheckNotNullFailed | Some x \<Rightarrow> Inr x)"

text \<open>\<^verbatim>\<open>v.at(i)\<close> with an \<^verbatim>\<open>int\<close> index: a negative index converts to a huge
  \<^verbatim>\<open>size_t\<close> and throws like any other index past the end.\<close>

definition vector_at :: "'a list \<Rightarrow> int \<Rightarrow> error + 'a" where
  "vector_at v i = (if 0 \<le> i \<and> nat i < length v then Inr (v ! nat i) else Inl OutOfRange)"

text \<open>\<^verbatim>\<open>v[i]\<close> read and \<^verbatim>\<open>v[i] = x\<close> write with a loop counter as index.\<close>

definition vector_get :: "'a list \<Rightarrow> nat \<Rightarrow> error + 'a" where
  "vector_get v i = (if i < length v then Inr (v ! i) else Inl OutOfBounds)"

definition vector_set :: "'a list \<Rightarrow> nat \<Rightarrow> 'a \<Rightarrow> error + 'a list" where
  "vector_set v i x = (if i < length v then Inr (v[i := x]) else Inl OutOfBounds)"

subsection \<open>Collaborators\<close>

text \<open>\<^verbatim>\<open>ImageData\<close>: the constructor from a data pointer and a size, and the member
  functions the solver calls. The second \<^verbatim>\<open>ResizeImage\<close> call of the data term leaves
  the interpolation argument to its default, \<open>INTER_DEFAULT\<close> here.\<close>

datatype interpolation = INTER_NEAREST | INTER_DEFAULT

record 'img ImageDataApi =
  ImageData :: "real list \<Rightarrow> nat \<times> nat \<Rightarrow> 'img"
  ResizeImage :: "'img \<Rightarrow> nat \<times> nat \<Rightarrow> interpolation \<Rightarrow> 'img"
  GetPixelValue :: "'img \<Rightarrow> int \<Rightarrow> nat \<Rightarrow> real"
  GetNumChannels :: "'img \<Rightarrow> int"
  GetMutableDataPointer :: "'img \<Rightarrow> int \<Rightarrow> real list"

text \<open>\<^verbatim>\<open>ImageModel\<close>: the degradation operator, its transpose, and the scale. Widths,
  heights and the scale are natural numbers; a scale of zero is the one value at which
  the division of the data term fails.\<close>

record 'img ImageModel =
  ApplyToImage :: "'img \<Rightarrow> int \<Rightarrow> 'img"
  ApplyTransposeToImage :: "'img \<Rightarrow> int \<Rightarrow> 'img"
  GetDownsamplingScale :: nat

text \<open>A \<^verbatim>\<open>Regularizer\<close> is an object with two virtual member functions.\<close>

record Regularizer =
  reg_ApplyToImage :: "real list \<Rightarrow> real list"
  reg_GetDerivatives :: "real list \<Rightarrow> real list \<Rightarrow> real list"

subsection \<open>The solver object\<close>

text \<open>The members of \<^verbatim>\<open>IrlsMapSolver\<close> that the two files read or write.
  \<^verbatim>\<open>regularizers_\<close> pairs each regularizer with its regularization parameter.\<close>

record 'img IrlsMapSolver =
  image_size :: "nat \<times> nat"
  number_of_pixels :: nat
  observations :: "'img list"
  image_model :: "'img ImageModel"
  regularizers :: "(Regularizer \<times> real) list"
  irls_weights :: "real list"

text \<open>Modelled from the spec: \<^verbatim>\<open>GetNumPixels\<close> and \<^verbatim>\<open>GetNumImages\<close> are declared in
  a header that is not among the sources. The first returns the number of pixels of the
  high-resolution image, kept as a member; the second the number of observations.\<close>

definition GetNumPixels :: "'img IrlsMapSolver \<Rightarrow> nat" where
  "GetNumPixels s = number_of_pixels s"

definition GetNumImages :: "'img IrlsMapSolver \<Rightarrow> nat" where
  "GetNumImages s = length (observations s)"

subsection \<open>Member functions as state transformers\<close>

text \<open>A member function takes the solver object it is called on and returns, next to its
  result, the solver object as the call leaves it. Every loop that reads a member of the
  solver carries the object from one iteration to the next, so that a write to a member
  would show in the object that comes back.\<close>

subsection \<open>\<^verbatim>\<open>IrlsMapSolver::ComputeDataTermAnalyticalDiff\<close>\<close>

text \<open>The loop of lines 145 to 151: one residual per pixel, pushed onto \<open>residuals\<close> and
  squared into \<open>residual_sum\<close>. \<^verbatim>\<open>observations_.at(image_index)\<close> is evaluated in every
  iteration.\<close>

fun data_residual_loop ::
  "'img ImageDataApi \<Rightarrow> 'img \<Rightarrow> int \<Rightarrow> int \<Rightarrow> nat list \<Rightarrow>
   real \<times> real list \<times> 'img IrlsMapSolver \<Rightarrow>
   error + (real \<times> real list \<times> 'img IrlsMapSolver)" where
  "data_residual_loop api degraded_hr_image image_index channel_index []
     (residual_sum, residuals, solver) = Inr (residual_sum, residuals, solver)"
| "data_residual_loop api degraded_hr_image image_index channel_index (i # rest)
     (residual_sum, residuals, solver) =
     and_then (vector_at (observations solver) image_index) (\<lambda>observation.
       let residual = GetPixelValue api degraded_hr_image 0 i
                      - GetPixelValue api observation channel_index i
       in data_residual_loop api degraded_hr_image image_index channel_index rest
            (residual_sum + residual * residual, residuals @ [residual], solver))"

text \<open>The loop of lines 165 to 170, over local variables only. \<open>gradient\<close> has
  \<open>num_pixels\<close> entries, so every write is inside the vector.\<close>

fun data_gradient_loop ::
  "'img ImageDataApi \<Rightarrow> 'img \<Rightarrow> nat list \<Rightarrow> real list \<Rightarrow> real list" where
  "data_gradient_loop api residual_image [] gradient = gradient"
| "data_gradient_loop api residual_image (pixel_index # rest) gradient =
     (let partial_derivative = 2 * GetPixelValue api residual_image 0 pixel_index
      in data_gradient_loop api residual_image rest (gradient[pixel_index := partial_derivative]))"

definition ComputeDataTermAnalyticalDiff ::
  "'img ImageDataApi \<Rightarrow> 'img IrlsMapSolver \<Rightarrow> int \<Rightarrow> int \<Rightarrow> real list option \<Rightarrow>
   error + ((real \<times> real list) \<times> 'img IrlsMapSolver)" where
  "ComputeDataTermAnalyticalDiff api solver image_index channel_index estimated_image_data =
     and_then (CHECK_NOTNULL estimated_image_data) (\<lambda>data.
       let degraded_hr_image = ImageData api data (image_size solver);
           degraded_hr_image = ApplyToImage (image_model solver) degraded_hr_image image_index;
           degraded_hr_image = ResizeImage api degraded_hr_image (image_size solver) INTER_NEAREST;
           num_pixels = GetNumPixels solver
       in and_then
            (data_residual_loop api degraded_hr_image image_index channel_index
               [0..<num_pixels] (0, [], solver))
            (\<lambda>(residual_sum, residuals, solver).
               let residual_image = ImageData api residuals (image_size solver);
                   scale = GetDownsamplingScale (image_model solver)
               in if scale = 0 then Inl DivisionByZero
                  else
                    let residual_image =
                          ResizeImage api residual_image
                            (fst (image_size solver) div scale, snd (image_size solver) div scale)
                            INTER_DEFAULT;
                        residual_image =
                          ApplyTransposeToImage (image_model solver) residual_image image_index;
                        gradient =
                          data_gradient_loop api residual_image [0..<num_pixels]
                            (replicate num_pixels 0)
                    in Inr ((residual_sum, gradient), solver)))"

subsection \<open>\<^verbatim>\<open>IrlsMapSolver::ComputeRegularizationAnalyticalDiff\<close>\<close>

text \<open>The loop of lines 193 to 200, inside the loop over the regularizers whose counter is
  \<open>i\<close>. The weight is read with \<^verbatim>\<open>irls_weights_.at(pixel_index)\<close>; the residual is
  read from and written back to \<^verbatim>\<open>residuals[i]\<close>.\<close>

fun scale_residuals_loop ::
  "real \<Rightarrow> nat \<Rightarrow> nat list \<Rightarrow> real list \<times> real \<times> 'img IrlsMapSolver \<Rightarrow>
   error + (real list \<times> real \<times> 'img IrlsMapSolver)" where
  "scale_residuals_loop regularization_parameter i [] (residuals, residual_sum, solver) =
     Inr (residuals, residual_sum, solver)"
| "scale_residuals_loop regularization_parameter i (pixel_index # rest)
     (residuals, residual_sum, solver) =
     and_then (vector_at (irls_weights solver) (int pixel_index)) (\<lambda>w.
       let weight = sqrt w
       in and_then (vector_get residuals i) (\<lambda>r.
            let residual = regularization_parameter * weight * r
            in and_then (vector_set residuals i residual) (\<lambda>residuals.
                 scale_residuals_loop regularization_parameter i rest
                   (residuals, residual_sum + residual * residual, solver))))"

text \<open>The loop of lines 204 to 220: the constants handed to \<^verbatim>\<open>GetDerivatives\<close>, with
  the weight read as \<^verbatim>\<open>irls_weights_[pixel_index]\<close>.\<close>

fun partial_const_terms_loop ::
  "real \<Rightarrow> real list \<Rightarrow> nat list \<Rightarrow> real list \<times> 'img IrlsMapSolver \<Rightarrow>
   error + (real list \<times> 'img IrlsMapSolver)" where
  "partial_const_terms_loop regularization_parameter residuals []
     (partial_const_terms, solver) = Inr (partial_const_terms, solver)"
| "partial_const_terms_loop regularization_parameter residuals (pixel_index # rest)
     (partial_const_terms, solver) =
     and_then (vector_get (irls_weights solver) pixel_index) (\<lambda>w.
       and_then (vector_get residuals pixel_index) (\<lambda>r.
         partial_const_terms_loop regularization_parameter residuals rest
           (partial_const_terms @ [2 * regularization_parameter * w * r], solver)))"

text \<open>The loop of lines 224 to 226, also the accumulation loops of the objective
  functions: \<^verbatim>\<open>gradient[i] += other[i]\<close>, over local variables only.\<close>

fun add_to_gradient_loop :: "real list \<Rightarrow> nat list \<Rightarrow> real list \<Rightarrow> error + real list" where
  "add_to_gradient_loop other [] gradient = Inr gradient"
| "add_to_gradient_loop other (pixel_index # rest) gradient =
     and_then (vector_get other pixel_index) (\<lambda>d.
       and_then (vector_get gradient pixel_index) (\<lambda>g.
         and_then (vector_set gradient pixel_index (g + d)) (\<lambda>gradient.
           add_to_gradient_loop other rest gradient)))"

text \<open>The loop over the regularizers, lines 187 to 227. \<open>num_pixels\<close> is the constant of
  line 181; \<^verbatim>\<open>regularizers_[i]\<close> is read from the solver in every iteration.\<close>

fun regularizers_loop ::
  "nat \<Rightarrow> real list \<Rightarrow> nat list \<Rightarrow> real \<times> real list \<times> 'img IrlsMapSolver \<Rightarrow>
   error + (real \<times> real list \<times> 'img IrlsMapSolver)" where
  "regularizers_loop num_pixels data [] (residual_sum, gradient, solver) =
     Inr (residual_sum, gradient, solver)"
| "regularizers_loop num_pixels data (i # rest) (residual_sum, gradient, solver) =
     and_then (vector_get (regularizers solver) i) (\<lambda>regularizer.
       let regularization_parameter = snd regularizer;
           residuals = reg_ApplyToImage (fst regularizer) data
       in and_then
            (scale_residuals_loop regularization_parameter i [0..<num_pixels]
               (residuals, residual_sum, solver))
            (\<lambda>(residuals, residual_sum, solver).
               and_then
                 (partial_const_terms_loop regularization_parameter residuals
                    [0..<num_pixels] ([], solver))
                 (\<lambda>(partial_const_terms, solver).
                    let partial_derivatives =
                          reg_GetDerivatives (fst regularizer) data partial_const_terms
                    in and_then
                         (add_to_gradient_loop partial_derivatives [0..<num_pixels] gradient)
                         (\<lambda>gradient.
                            regularizers_loop num_pixels data rest
                              (residual_sum, gradient, solver)))))"

definition ComputeRegularizationAnalyticalDiff ::
  "'img IrlsMapSolver \<Rightarrow> real list option \<Rightarrow>
   error + ((real \<times> real list) \<times> 'img IrlsMapSolver)" where
  "ComputeRegularizationAnalyticalDiff solver estimated_image_data =
     and_then (CHECK_NOTNULL estimated_image_data) (\<lambda>data.
       let num_pixels = GetNumPixels solver;
           gradient = replicate num_pixels 0;
           residual_sum = 0
       in and_then
            (regularizers_loop num_pixels data [0..<length (regularizers solver)]
               (residual_sum, gradient, solver))
            (\<lambda>(residual_sum, gradient, solver). Inr ((residual_sum, gradient), solver)))"

subsection \<open>The objective functions handed to ALGLIB\<close>

text \<open>\<^verbatim>\<open>estimated_data.getcontent()\<close>: the pointer to the content of the array.\<close>

definition getcontent :: "real list \<Rightarrow> real list option" where
  "getcontent estimated_data = Some estimated_data"

text \<open>The loop that zeroes the gradient (lines 34 to 36 of the solver file, 26 to 28 of
  the objective file). ALGLIB's \<^verbatim>\<open>operator[]\<close> is unchecked.\<close>

fun zero_gradient_loop :: "nat list \<Rightarrow> real list \<Rightarrow> error + real list" where
  "zero_gradient_loop [] gradient = Inr gradient"
| "zero_gradient_loop (i # rest) gradient =
     and_then (vector_set gradient i 0) (\<lambda>gradient. zero_gradient_loop rest gradient)"

text \<open>The loop over the images. \<open>data_term\<close> is the member function that the loop calls
  on the solver with the image index and the content pointer.\<close>

fun data_terms_loop ::
  "('img IrlsMapSolver \<Rightarrow> int \<Rightarrow> real list option \<Rightarrow>
    error + ((real \<times> real list) \<times> 'img IrlsMapSolver)) \<Rightarrow>
   nat \<Rightarrow> real list \<Rightarrow> nat list \<Rightarrow> real \<times> real list \<times> 'img IrlsMapSolver \<Rightarrow>
   error + (real \<times> real list \<times> 'img IrlsMapSolver)" where
  "data_terms_loop data_term num_pixels estimated_data []
     (residual_sum, gradient, irls_map_solver) = Inr (residual_sum, gradient, irls_map_solver)"
| "data_terms_loop data_term num_pixels estimated_data (image_index # rest)
     (residual_sum, gradient, irls_map_solver) =
     and_then (data_term irls_map_solver (int image_index) (getcontent estimated_data))
       (\<lambda>(residual_sum_and_gradient, irls_map_solver).
          let residual_sum = residual_sum + fst residual_sum_and_gradient
          in and_then
               (add_to_gradient_loop (snd residual_sum_and_gradient) [0..<num_pixels] gradient)
               (\<lambda>gradient.
                  data_terms_loop data_term num_pixels estimated_data rest
                    (residual_sum, gradient, irls_map_solver)))"

text \<open>\<^verbatim>\<open>AlglibObjectiveFunctionAnalyticalDiff\<close> of the solver file. The two output
  references and the solver behind the context pointer are the state: the function takes
  their values at the call and returns their values at the return.\<close>

definition AlglibObjectiveFunctionAnalyticalDiff ::
  "'img ImageDataApi \<Rightarrow> real list \<Rightarrow> real \<times> real list \<times> 'img IrlsMapSolver \<Rightarrow>
   error + (real \<times> real list \<times> 'img IrlsMapSolver)" where
  "AlglibObjectiveFunctionAnalyticalDiff api estimated_data st =
     (case st of (residual_sum, gradient, irls_map_solver) \<Rightarrow>
        let residual_sum = 0;
            num_pixels = GetNumPixels irls_map_solver
        in and_then (zero_gradient_loop [0..<num_pixels] gradient) (\<lambda>gradient.
             let num_images = GetNumImages irls_map_solver
             in and_then
                  (data_terms_loop
                     (\<lambda>solver image_index.
                        ComputeDataTermAnalyticalDiff api solver image_index 0)
                     num_pixels estimated_data [0..<num_images]
                     (residual_sum, gradient, irls_map_solver))
                  (\<lambda>(residual_sum, gradient, irls_map_solver).
                     and_then
                       (ComputeRegularizationAnalyticalDiff irls_map_solver
                          (getcontent estimated_data))
                       (\<lambda>(residual_sum_and_gradient, irls_map_solver).
                          let residual_sum = residual_sum + fst residual_sum_and_gradient
                          in and_then
                               (add_to_gradient_loop (snd residual_sum_and_gradient)
                                  [0..<num_pixels] gradient)
                               (\<lambda>gradient. Inr (residual_sum, gradient, irls_map_solver))))))"

text \<open>\<^verbatim>\<open>AlglibObjectiveFunction\<close> of the objective file. The member functions
  \<^verbatim>\<open>ComputeDataTerm\<close> and \<^verbatim>\<open>ComputeRegularization\<close> that it calls are not among the
  sources: they are the parameters of the same names, state transformers of the solver
  like the two member functions above.\<close>

definition AlglibObjectiveFunction ::
  "('img IrlsMapSolver \<Rightarrow> int \<Rightarrow> real list option \<Rightarrow>
    error + ((real \<times> real list) \<times> 'img IrlsMapSolver)) \<Rightarrow>
   ('img IrlsMapSolver \<Rightarrow> real list option \<Rightarrow>
    error + ((real \<times> real list) \<times> 'img IrlsMapSolver)) \<Rightarrow>
   real list \<Rightarrow> real \<times> real list \<times> 'img IrlsMapSolver \<Rightarrow>
   error + (real \<times> real list \<times> 'img IrlsMapSolver)" where
  "AlglibObjectiveFunction ComputeDataTerm ComputeRegularization estimated_data st =
     (case st of (residual_sum, gradient, irls_map_solver) \<Rightarrow>
        let residual_sum = 0;
            num_pixels = GetNumPixels irls_map_solver
        in and_then (zero_gradient_loop [0..<num_pixels] gradient) (\<lambda>gradient.
             let num_images = GetNumImages irls_map_solver
             in and_then
                  (data_terms_loop ComputeDataTerm num_pixels estimated_data [0..<num_images]
                     (residual_sum, gradient, irls_map_solver))
                  (\<lambda>(residual_sum, gradient, irls_map_solver).
                     and_then
                       (ComputeRegularization irls_map_solver (getcontent estimated_data))
                       (\<lambda>(residual_sum_and_gradient, irls_map_solver).
                          let residual_sum = residual_sum + fst residual_sum_and_gradient
                          in and_then
                               (add_to_gradient_loop (snd residual_sum_and_gradient)
                                  [0..<num_pixels] gradient)
                               (\<lambda>gradient. Inr (residual_sum, gradient, irls_map_solver))))))"

subsection \<open>The iteration callbacks\<close>

text \<open>\<^verbatim>\<open>AlglibSolverIterationCallback\<close> of the solver file, lines 64 to 71: the body
  writes one log line. The solver behind the context pointer is returned as it came.\<close>

definition AlglibSolverIterationCallback ::
  "real list \<Rightarrow> real \<Rightarrow> 'img IrlsMapSolver \<Rightarrow> 'img IrlsMapSolver" where
  "AlglibSolverIterationCallback estimated_data residual_sum irls_map_solver = irls_map_solver"

text \<open>The function of the same name in the objective file, lines 53 to 62. The member
  function \<^verbatim>\<open>UpdateIrlsWeights\<close> is not among the sources: it is a parameter.\<close>

definition AlglibSolverIterationCallback_irls_objective ::
  "('img IrlsMapSolver \<Rightarrow> real list option \<Rightarrow> 'img IrlsMapSolver) \<Rightarrow>
   real list \<Rightarrow> real \<Rightarrow> 'img IrlsMapSolver \<Rightarrow> 'img IrlsMapSolver" where
  "AlglibSolverIterationCallback_irls_objective UpdateIrlsWeights estimated_data residual_sum
     irls_map_solver = UpdateIrlsWeights irls_map_solver (getcontent estimated_data)"

subsection \<open>\<^verbatim>\<open>IrlsMapSolver::Solve\<close>\<close>

text \<open>\<^verbatim>\<open>std::vector::resize\<close> keeps the entries that fit and appends zeros;
  \<^verbatim>\<open>std::fill\<close> over the whole vector overwrites every entry.\<close>

definition vector_resize :: "nat \<Rightarrow> real list \<Rightarrow> real list" where
  "vector_resize n v = take n v @ replicate (n - length v) 0"

definition vector_fill :: "real list \<Rightarrow> real \<Rightarrow> real list" where
  "vector_fill v x = map (\<lambda>_. x) v"

text \<open>Lines 75 and 76.\<close>

definition initialize_irls_weights :: "'img IrlsMapSolver \<Rightarrow> 'img IrlsMapSolver" where
  "initialize_irls_weights s =
     (let s = s\<lparr>irls_weights := vector_resize (GetNumPixels s) (irls_weights s)\<rparr>
      in s\<lparr>irls_weights := vector_fill (irls_weights s) 1\<rparr>)"

text \<open>\<^verbatim>\<open>solver_data.setcontent(n, pointer)\<close> copies \<open>n\<close> entries.\<close>

definition setcontent :: "nat \<Rightarrow> real list \<Rightarrow> error + real list" where
  "setcontent n data = (if n \<le> length data then Inr (take n data) else Inl OutOfBounds)"

text \<open>The ALGLIB minimizer is a parameter of \<open>Solve\<close>: \<open>mincgoptimize\<close> receives the
  objective function, the iteration callback, the solver behind the context pointer and
  the start vector, and returns the final vector and the solver. The tolerances of lines
  82 to 86 are constants that only the minimizer reads.\<close>

type_synonym 'img objective_function =
  "real list \<Rightarrow> real \<times> real list \<times> 'img IrlsMapSolver \<Rightarrow>
   error + (real \<times> real list \<times> 'img IrlsMapSolver)"

type_synonym 'img iteration_callback =
  "real list \<Rightarrow> real \<Rightarrow> 'img IrlsMapSolver \<Rightarrow> 'img IrlsMapSolver"

definition Solve ::
  "'img ImageDataApi \<Rightarrow>
   ('img objective_function \<Rightarrow> 'img iteration_callback \<Rightarrow> 'img IrlsMapSolver \<Rightarrow> real list \<Rightarrow>
    error + (real list \<times> 'img IrlsMapSolver)) \<Rightarrow>
   'img IrlsMapSolver \<Rightarrow> 'img \<Rightarrow> error + ('img \<times> 'img IrlsMapSolver)" where
  "Solve api mincgoptimize s initial_estimate =
     (let s = initialize_irls_weights s
      in and_then (vector_get (observations s) 0) (\<lambda>observation.
           let num_channels = GetNumChannels api observation
           in and_then
                (setcontent (GetNumPixels s) (GetMutableDataPointer api initial_estimate 0))
                (\<lambda>solver_data.
                   and_then
                     (mincgoptimize (AlglibObjectiveFunctionAnalyticalDiff api)
                        AlglibSolverIterationCallback s solver_data)
                     (\<lambda>(solver_data, s).
                        let estimated_image = ImageData api solver_data (image_size s)
                        in Inr (estimated_image, s)))))"

text \<open>Modelled from the spec: the Minimizer is outside the repository. Section 5 of the
  specification says that it calls the objective function on every trial step and the
  iteration report on every accepted step, one call after the other. A run of the
  minimizer is therefore a list of such calls, each made on the state that the one
  before left.\<close>

datatype minimizer_call = TrialStep "real list" | AcceptedStep "real list" real

fun minimizer_run ::
  "'img objective_function \<Rightarrow> 'img iteration_callback \<Rightarrow> minimizer_call list \<Rightarrow>
   real \<times> real list \<times> 'img IrlsMapSolver \<Rightarrow>
   error + (real \<times> real list \<times> 'img IrlsMapSolver)" where
  "minimizer_run func rep [] st = Inr st"
| "minimizer_run func rep (TrialStep x # calls) st =
     and_then (func x st) (\<lambda>st. minimizer_run func rep calls st)"
| "minimizer_run func rep (AcceptedStep x f # calls) (residual_sum, gradient, solver) =
     minimizer_run func rep calls (residual_sum, gradient, rep x f solver)"

subsection \<open>The terms as the specification writes them\<close>

text \<open>The regularization cost of regularizer \<open>k\<close> in the words of the specification: the
  sum over the pixels of \<open>lambda\<^sup>2 * weight * residual\<^sup>2\<close>, the residuals being those of
  \<^verbatim>\<open>ApplyToImage\<close>.\<close>

definition spec_regularization_cost :: "'img IrlsMapSolver \<Rightarrow> real list \<Rightarrow> nat \<Rightarrow> real" where
  "spec_regularization_cost s data k =
     (\<Sum>p = 0..<GetNumPixels s.
        (snd (regularizers s ! k))\<^sup>2 * (irls_weights s ! p)
        * (reg_ApplyToImage (fst (regularizers s ! k)) data ! p)\<^sup>2)"

text \<open>The coefficients of the derivative pass in the words of the specification:
  \<open>2 * lambda * weight * scaled residual\<close>, the scaled residual of a pixel being its
  residual times \<open>lambda * sqrt weight\<close>.\<close>

definition spec_upstream_coefficients ::
  "'img IrlsMapSolver \<Rightarrow> real list \<Rightarrow> nat \<Rightarrow> real list" where
  "spec_upstream_coefficients s data k =
     map (\<lambda>p. 2 * snd (regularizers s ! k) * (irls_weights s ! p)
               * (snd (regularizers s ! k) * sqrt (irls_weights s ! p)
                  * (reg_ApplyToImage (fst (regularizers s ! k)) data ! p)))
       [0..<GetNumPixels s]"

definition spec_regularization_gradient ::
  "'img IrlsMapSolver \<Rightarrow> real list \<Rightarrow> real list" where
  "spec_regularization_gradient s data =
     map (\<lambda>p. \<Sum>k = 0..<length (regularizers s).
                 reg_GetDerivatives (fst (regularizers s ! k)) data
                   (spec_upstream_coefficients s data k) ! p)
       [0..<GetNumPixels s]"

text \<open>The data term of frame \<open>image_index\<close> in the words of the specification: the
  estimate is degraded and resampled to the high-resolution grid, the residual of a pixel
  is the degraded pixel minus the observed pixel, the cost is the sum of the squared
  residuals, and the gradient is twice the transpose applied to the residual image
  resampled to the size divided by the scale.\<close>

definition spec_degraded_estimate ::
  "'img ImageDataApi \<Rightarrow> 'img IrlsMapSolver \<Rightarrow> int \<Rightarrow> real list \<Rightarrow> 'img" where
  "spec_degraded_estimate api s image_index data =
     ResizeImage api
       (ApplyToImage (image_model s) (ImageData api data (image_size s)) image_index)
       (image_size s) INTER_NEAREST"

definition spec_data_residual ::
  "'img ImageDataApi \<Rightarrow> 'img IrlsMapSolver \<Rightarrow> int \<Rightarrow> int \<Rightarrow> real list \<Rightarrow> nat \<Rightarrow> real" where
  "spec_data_residual api s image_index channel_index data p =
     GetPixelValue api (spec_degraded_estimate api s image_index data) 0 p
     - GetPixelValue api (observations s ! nat image_index) channel_index p"

definition spec_data_cost ::
  "'img ImageDataApi \<Rightarrow> 'img IrlsMapSolver \<Rightarrow> int \<Rightarrow> int \<Rightarrow> real list \<Rightarrow> real" where
  "spec_data_cost api s image_index channel_index data =
     (\<Sum>p = 0..<GetNumPixels s. (spec_data_residual api s image_index channel_index data p)\<^sup>2)"

definition spec_transposed_residual ::
  "'img ImageDataApi \<Rightarrow> 'img IrlsMapSolver \<Rightarrow> int \<Rightarrow> int \<Rightarrow> real list \<Rightarrow> 'img" where
  "spec_transposed_residual api s image_index channel_index data =
     ApplyTransposeToImage (image_model s)
       (ResizeImage api
          (ImageData api
             (map (spec_data_residual api s image_index channel_index data)
                [0..<GetNumPixels s])
             (image_size s))
          (fst (image_size s) div GetDownsamplingScale (image_model s),
           snd (image_size s) div GetDownsamplingScale (image_model s))
          INTER_DEFAULT)
       image_index"

definition spec_data_gradient ::
  "'img ImageDataApi \<Rightarrow> 'img IrlsMapSolver \<Rightarrow> int \<Rightarrow> int \<Rightarrow> real list \<Rightarrow> real list" where
  "spec_data_gradient api s image_index channel_index data =
     map (\<lambda>p. 2 * GetPixelValue api
                     (spec_transposed_residual api s image_index channel_index data) 0 p)
       [0..<GetNumPixels s]"

subsection \<open>A small configuration\<close>

text \<open>Images of one channel stored as the list of their pixels, a degradation that
  changes nothing at scale 1, and the regularizer whose residual at a pixel is the pixel
  itself (its derivative pass returns the coefficients).\<close>

definition flat_api :: "real list ImageDataApi" where
  "flat_api =
     \<lparr>ImageData = (\<lambda>data size. take (fst size * snd size) data),
      ResizeImage = (\<lambda>img size interp. img),
      GetPixelValue = (\<lambda>img channel i. if i < length img then img ! i else 0),
      GetNumChannels = (\<lambda>img. 1),
      GetMutableDataPointer = (\<lambda>img channel. img)\<rparr>"

definition identity_model :: "real list ImageModel" where
  "identity_model =
     \<lparr>ApplyToImage = (\<lambda>img i. img),
      ApplyTransposeToImage = (\<lambda>img i. img),
      GetDownsamplingScale = 1\<rparr>"

definition identity_regularizer :: Regularizer where
  "identity_regularizer =
     \<lparr>reg_ApplyToImage = (\<lambda>data. data),
      reg_GetDerivatives = (\<lambda>data coefficients. coefficients)\<rparr>"

text \<open>Two pixels, one observation, one regularizer with parameter 2, and the weights as
  \<open>Solve\<close> leaves them.\<close>

definition two_pixel_solver :: "real list IrlsMapSolver" where
  "two_pixel_solver =
     \<lparr>image_size = (2, 1),
      number_of_pixels = 2,
      observations = [[1, 1]],
      image_model = identity_model,
      regularizers = [(identity_regularizer, 2)],
      irls_weights = [1, 1]\<rparr>"

text \<open>The same solver before a solve, with a weight table left over from elsewhere.\<close>

definition stale_solver :: "real list IrlsMapSolver" where
  "stale_solver = two_pixel_solver\<lparr>irls_weights := [7, 7, 7]\<rparr>"

text \<open>A minimizer that evaluates the objective at the start vector, reports that vector
  as accepted, and returns it.\<close>

definition one_step_minimizer ::
  "real list objective_function \<Rightarrow> real list iteration_callback \<Rightarrow>
   real list IrlsMapSolver \<Rightarrow> real list \<Rightarrow> error + (real list \<times> real list IrlsMapSolver)" where
  "one_step_minimizer func rep solver solver_data =
     and_then (func solver_data (0, replicate (length solver_data) 0, solver))
       (\<lambda>(residual_sum, gradient, solver).
          Inr (solver_data, rep solver_data residual_sum solver))"

text \<open>The same without regularizers.\<close>

definition two_pixel_solver_no_regularizer :: "real list IrlsMapSolver" where
  "two_pixel_solver_no_regularizer = two_pixel_solver\<lparr>regularizers := []\<rparr>"

section \<open>Properties\<close>

subsection \<open>Sequencing of fallible steps\<close>

lemma and_then_Inr [simp]: "and_then (Inr x) f = f x"
  by (simp add: and_then_def)

lemma and_then_Inl [simp]: "and_then (Inl e) f = Inl e"
  by (simp add: and_then_def)

lemma and_then_eq_Inr: "and_then r f = Inr y \<longleftrightarrow> (\<exists>x. r = Inr x \<and> f x = Inr y)"
  by (cases r) simp_all

lemma and_then_eq_Inl:
  "and_then r f = Inl e \<longleftrightarrow> r = Inl e \<or> (\<exists>x. r = Inr x \<and> f x = Inl e)"
  by (cases r) simp_all

lemma vector_at_not_null [simp]: "vector_at v i \<noteq> Inl CheckNotNullFailed"
  by (simp add: vector_at_def)

lemma vector_get_not_null [simp]: "vector_get v i \<noteq> Inl CheckNotNullFailed"
  by (simp add: vector_get_def)

lemma vector_set_not_null [simp]: "vector_set v i x \<noteq> Inl CheckNotNullFailed"
  by (simp add: vector_set_def)

lemma data_residual_loop_not_null:
  "data_residual_loop api img image_index channel_index ps acc \<noteq> Inl CheckNotNullFailed"
proof (induction ps arbitrary: acc)
  case Nil
  show ?case by (cases acc rule: prod_cases3) simp
next
  case (Cons p ps)
  show ?case
    by (cases acc rule: prod_cases3) (simp add: Let_def and_then_eq_Inl Cons.IH)
qed

lemma scale_residuals_loop_not_null:
  "scale_residuals_loop l i ps acc \<noteq> Inl CheckNotNullFailed"
proof (induction ps arbitrary: acc)
  case Nil
  show ?case by (cases acc rule: prod_cases3) simp
next
  case (Cons p ps)
  show ?case
    by (cases acc rule: prod_cases3) (simp add: Let_def and_then_eq_Inl Cons.IH)
qed

lemma partial_const_terms_loop_not_null:
  "partial_const_terms_loop l r ps acc \<noteq> Inl CheckNotNullFailed"
proof (induction ps arbitrary: acc)
  case Nil
  show ?case by (cases acc) simp
next
  case (Cons p ps)
  show ?case
    by (cases acc) (simp add: and_then_eq_Inl Cons.IH)
qed

lemma add_to_gradient_loop_not_null:
  "add_to_gradient_loop other ps g \<noteq> Inl CheckNotNullFailed"
  by (induction ps arbitrary: g) (simp_all add: and_then_eq_Inl)

lemma regularizers_loop_not_null:
  "regularizers_loop n data ks acc \<noteq> Inl CheckNotNullFailed"
proof (induction ks arbitrary: acc)
  case Nil
  show ?case by (cases acc rule: prod_cases3) simp
next
  case (Cons k ks)
  show ?case
    by (cases acc rule: prod_cases3)
      (simp add: Let_def and_then_eq_Inl split_beta Cons.IH scale_residuals_loop_not_null
        partial_const_terms_loop_not_null add_to_gradient_loop_not_null)
qed

subsection \<open>The null check\<close>

text \<open>Claim C7. A call of \<open>ComputeDataTermAnalyticalDiff\<close> or of
  \<open>ComputeRegularizationAnalyticalDiff\<close> with a null estimate pointer fails at
  \<^verbatim>\<open>CHECK_NOTNULL\<close>, so that no cost and no gradient is returned; with a pointer that
  is not null the check passes: whatever the call returns, it is not the failure of that
  check.\<close>

theorem null_estimate_is_fatal:
  "ComputeDataTermAnalyticalDiff api s image_index channel_index None = Inl CheckNotNullFailed
   \<and> ComputeRegularizationAnalyticalDiff s None = Inl CheckNotNullFailed
   \<and> (\<forall>data. ComputeDataTermAnalyticalDiff api s image_index channel_index (Some data)
               \<noteq> Inl CheckNotNullFailed
             \<and> ComputeRegularizationAnalyticalDiff s (Some data) \<noteq> Inl CheckNotNullFailed)"
proof -
  have "ComputeDataTermAnalyticalDiff api s image_index channel_index None
          = Inl CheckNotNullFailed"
    by (simp add: ComputeDataTermAnalyticalDiff_def CHECK_NOTNULL_def)
  moreover have "ComputeRegularizationAnalyticalDiff s None = Inl CheckNotNullFailed"
    by (simp add: ComputeRegularizationAnalyticalDiff_def CHECK_NOTNULL_def)
  moreover have "ComputeDataTermAnalyticalDiff api s image_index channel_index (Some data)
          \<noteq> Inl CheckNotNullFailed" for data
    by (simp add: ComputeDataTermAnalyticalDiff_def CHECK_NOTNULL_def Let_def
        and_then_eq_Inl split_beta data_residual_loop_not_null)
  moreover have "ComputeRegularizationAnalyticalDiff s (Some data) \<noteq> Inl CheckNotNullFailed"
    for data
    by (simp add: ComputeRegularizationAnalyticalDiff_def CHECK_NOTNULL_def Let_def
        and_then_eq_Inl split_beta regularizers_loop_not_null)
  ultimately show ?thesis by blast
qed

subsection \<open>No regularizer\<close>

text \<open>Claim C10. With no regularizer configured and an estimate pointer that is not null,
  \<open>ComputeRegularizationAnalyticalDiff\<close> returns the cost 0 and a gradient of
  \<open>GetNumPixels\<close> entries, each of them 0 (and the solver as it was).\<close>

theorem no_regularizer_zero_cost_and_gradient:
  "regularizers s = [] \<Longrightarrow>
   ComputeRegularizationAnalyticalDiff s (Some data)
     = Inr ((0, replicate (GetNumPixels s) 0), s)"
  by (simp add: ComputeRegularizationAnalyticalDiff_def CHECK_NOTNULL_def)

theorem no_regularizer_zero_cost_and_gradient_witness:
  "regularizers two_pixel_solver_no_regularizer = [] \<and>
   ComputeRegularizationAnalyticalDiff two_pixel_solver_no_regularizer (Some [1, 3])
     = Inr ((0, [0, 0]), two_pixel_solver_no_regularizer)"
proof -
  have h: "regularizers two_pixel_solver_no_regularizer = []"
    by (simp add: two_pixel_solver_no_regularizer_def)
  have n: "replicate (GetNumPixels two_pixel_solver_no_regularizer) (0::real) = [0, 0]"
    by (simp add: GetNumPixels_def two_pixel_solver_no_regularizer_def two_pixel_solver_def
        numeral_2_eq_2)
  show ?thesis
    using h no_regularizer_zero_cost_and_gradient [OF h, of "[1, 3]"] n by simp
qed

subsection \<open>The small configuration, evaluated\<close>

lemmas example_defs = two_pixel_solver_def identity_regularizer_def identity_model_def
  flat_api_def GetNumPixels_def GetNumImages_def

lemmas step_defs = CHECK_NOTNULL_def vector_at_def vector_get_def vector_set_def
  getcontent_def

lemma upt_0_2: "[0..<2] = [0, Suc 0]"
  by (simp add: upt_rec)

lemma replicate_2: "replicate 2 x = [x, x]"
  by (simp add: numeral_2_eq_2)

lemma data_term_example:
  "ComputeDataTermAnalyticalDiff flat_api two_pixel_solver 0 0 (Some [1, 3])
   = Inr ((4, [0, 4]), two_pixel_solver)"
  by (simp add: ComputeDataTermAnalyticalDiff_def example_defs step_defs upt_0_2 replicate_2)

lemma regularization_example:
  "ComputeRegularizationAnalyticalDiff two_pixel_solver (Some [1, 3])
   = Inr ((20, [16, 12]), two_pixel_solver)"
  by (simp add: ComputeRegularizationAnalyticalDiff_def example_defs step_defs upt_0_2
      replicate_2)

lemma objective_example:
  "AlglibObjectiveFunctionAnalyticalDiff flat_api [1, 3] (residual_sum, [a, b], two_pixel_solver)
   = Inr (24, [16, 16], two_pixel_solver)"
proof -
  have n: "GetNumPixels two_pixel_solver = 2" and i: "GetNumImages two_pixel_solver = 1"
    by (simp_all add: example_defs)
  show ?thesis
    by (simp add: AlglibObjectiveFunctionAnalyticalDiff_def n i upt_0_2 data_term_example
        regularization_example step_defs)
qed

subsection \<open>The data term\<close>

lemma data_residual_loop_closed:
  assumes "0 \<le> image_index" and "nat image_index < length (observations s)"
  shows "data_residual_loop api img image_index channel_index ps (residual_sum, residuals, s) =
         Inr (residual_sum
                + (\<Sum>p\<leftarrow>ps. (GetPixelValue api img 0 p
                     - GetPixelValue api (observations s ! nat image_index) channel_index p)\<^sup>2),
              residuals
                @ map (\<lambda>p. GetPixelValue api img 0 p
                     - GetPixelValue api (observations s ! nat image_index) channel_index p) ps,
              s)"
  using assms
  by (induction ps arbitrary: residual_sum residuals)
    (simp_all add: vector_at_def Let_def power2_eq_square add.assoc)

lemma data_gradient_loop_length:
  "length (data_gradient_loop api img ps gradient) = length gradient"
  by (induction ps arbitrary: gradient) (simp_all add: Let_def)

lemma data_gradient_loop_nth:
  "\<forall>q\<in>set ps. q < length gradient \<Longrightarrow>
   data_gradient_loop api img ps gradient ! p =
     (if p \<in> set ps then 2 * GetPixelValue api img 0 p else gradient ! p)"
proof (induction ps arbitrary: gradient)
  case Nil
  show ?case by simp
next
  case (Cons q ps)
  from Cons.prems have "\<forall>r\<in>set ps. r < length (gradient[q := 2 * GetPixelValue api img 0 q])"
    by simp
  from Cons.IH [OF this] Cons.prems show ?case
    by (auto simp: Let_def nth_list_update)
qed

lemma data_gradient_loop_closed:
  "data_gradient_loop api img [0..<n] (replicate n 0) =
   map (\<lambda>p. 2 * GetPixelValue api img 0 p) [0..<n]"
proof (rule nth_equalityI)
  show "length (data_gradient_loop api img [0..<n] (replicate n 0)) =
        length (map (\<lambda>p. 2 * GetPixelValue api img 0 p) [0..<n])"
    by (simp add: data_gradient_loop_length)
next
  fix p
  assume "p < length (data_gradient_loop api img [0..<n] (replicate n 0))"
  then have p: "p < n" by (simp add: data_gradient_loop_length)
  have "\<forall>q\<in>set [0..<n]. q < length (replicate n (0::real))" by simp
  from data_gradient_loop_nth [OF this, of api img p] p
  show "data_gradient_loop api img [0..<n] (replicate n 0) ! p =
        map (\<lambda>p. 2 * GetPixelValue api img 0 p) [0..<n] ! p"
    by simp
qed

text \<open>Claim C3. For an estimate pointer that is not null and an observed frame
  \<open>image_index\<close>, \<open>ComputeDataTermAnalyticalDiff\<close> returns as cost the sum over the
  high-resolution pixels of the squared residual (the pixel of the degraded and resampled
  estimate minus the pixel of the observation), and as gradient twice the pixels of the
  transpose applied to the residual image resampled to the size divided by the scale. The
  scale is positive, as the data model requires. The solver comes back as it was.\<close>

theorem data_term_cost_and_gradient:
  assumes "0 \<le> image_index" and "nat image_index < GetNumImages s"
    and "0 < GetDownsamplingScale (image_model s)"
  shows "ComputeDataTermAnalyticalDiff api s image_index channel_index (Some data) =
         Inr ((spec_data_cost api s image_index channel_index data,
               spec_data_gradient api s image_index channel_index data), s)"
proof -
  from assms have idx: "nat image_index < length (observations s)"
    by (simp add: GetNumImages_def)
  have cost: "(\<Sum>p\<leftarrow>[0..<n]. (f p)\<^sup>2) = (\<Sum>p = 0..<n. (f p)\<^sup>2)" for f :: "nat \<Rightarrow> real" and n
    by (simp add: interv_sum_list_conv_sum_set_nat)
  show ?thesis
    using assms(3)
    by (simp add: ComputeDataTermAnalyticalDiff_def CHECK_NOTNULL_def Let_def
        data_residual_loop_closed [OF assms(1) idx] data_gradient_loop_closed cost
        spec_data_cost_def spec_data_gradient_def spec_transposed_residual_def
        spec_data_residual_def [abs_def] spec_degraded_estimate_def)
qed

theorem data_term_cost_and_gradient_witness:
  "(0::int) \<le> 0 \<and> nat 0 < GetNumImages two_pixel_solver
   \<and> 0 < GetDownsamplingScale (image_model two_pixel_solver)
   \<and> ComputeDataTermAnalyticalDiff flat_api two_pixel_solver 0 0 (Some [1, 3])
       = Inr ((4, [0, 4]), two_pixel_solver)"
proof -
  have h1: "(0::int) \<le> 0" by simp
  have h2: "nat 0 < GetNumImages two_pixel_solver"
    by (simp add: GetNumImages_def two_pixel_solver_def)
  have h3: "0 < GetDownsamplingScale (image_model two_pixel_solver)"
    by (simp add: two_pixel_solver_def identity_model_def)
  have c: "spec_data_cost flat_api two_pixel_solver 0 0 [1, 3] = 4"
    by (simp add: spec_data_cost_def spec_data_residual_def spec_degraded_estimate_def
        example_defs sum.atLeast_Suc_lessThan numeral_2_eq_2)
  have g: "spec_data_gradient flat_api two_pixel_solver 0 0 [1, 3] = [0, 4]"
    by (simp add: spec_data_gradient_def spec_transposed_residual_def
        spec_data_residual_def [abs_def] spec_degraded_estimate_def example_defs upt_0_2)
  show ?thesis
    using h1 h2 h3 data_term_cost_and_gradient [OF h1 h2 h3, of flat_api 0 "[1, 3]"] c g
    by simp
qed

subsection \<open>The weights at the start of a solve\<close>

lemma initialize_irls_weights_eq:
  "initialize_irls_weights s = s\<lparr>irls_weights := replicate (GetNumPixels s) 1\<rparr>"
  by (simp add: initialize_irls_weights_def vector_resize_def vector_fill_def Let_def
      map_replicate_const)

lemma Solve_unfold:
  "Solve api mincgoptimize s initial_estimate =
   and_then (vector_get (observations s) 0) (\<lambda>observation.
     and_then (setcontent (GetNumPixels s) (GetMutableDataPointer api initial_estimate 0))
       (\<lambda>solver_data.
          and_then
            (mincgoptimize (AlglibObjectiveFunctionAnalyticalDiff api)
               AlglibSolverIterationCallback
               (s\<lparr>irls_weights := replicate (GetNumPixels s) 1\<rparr>) solver_data)
            (\<lambda>(final_data, s'). Inr (ImageData api final_data (image_size s'), s'))))"
  by (simp add: Solve_def Let_def initialize_irls_weights_eq GetNumPixels_def)

text \<open>Claim C5. \<open>Solve\<close> sets the weight table to \<open>GetNumPixels\<close> entries, each of them 1,
  before it calls the minimizer: whenever \<open>Solve\<close> returns, the minimizer was called, with
  the two callbacks of the solver file and the start vector read from the initial
  estimate, on the solver whose weight table is that table (and whose other members are
  those of the solver at the call), and \<open>Solve\<close> returns what this call of the minimizer
  returned.\<close>

theorem Solve_initializes_weights:
  assumes "Solve api mincgoptimize s initial_estimate = Inr (estimated_image, s')"
  shows "\<exists>solver_data final_data.
           setcontent (GetNumPixels s) (GetMutableDataPointer api initial_estimate 0)
             = Inr solver_data
         \<and> initialize_irls_weights s = s\<lparr>irls_weights := replicate (GetNumPixels s) 1\<rparr>
         \<and> mincgoptimize (AlglibObjectiveFunctionAnalyticalDiff api)
             AlglibSolverIterationCallback
             (s\<lparr>irls_weights := replicate (GetNumPixels s) 1\<rparr>) solver_data
             = Inr (final_data, s')
         \<and> estimated_image = ImageData api final_data (image_size s')"
  using assms
  by (auto simp: Solve_unfold and_then_eq_Inr initialize_irls_weights_eq)

theorem Solve_initializes_weights_witness:
  "Solve flat_api one_step_minimizer stale_solver [1, 3] = Inr ([1, 3], two_pixel_solver)
   \<and> irls_weights stale_solver = [7, 7, 7]
   \<and> (\<exists>solver_data final_data.
         setcontent (GetNumPixels stale_solver) (GetMutableDataPointer flat_api [1, 3] 0)
           = Inr solver_data
       \<and> initialize_irls_weights stale_solver
           = stale_solver\<lparr>irls_weights := replicate (GetNumPixels stale_solver) 1\<rparr>
       \<and> one_step_minimizer (AlglibObjectiveFunctionAnalyticalDiff flat_api)
           AlglibSolverIterationCallback
           (stale_solver\<lparr>irls_weights := replicate (GetNumPixels stale_solver) 1\<rparr>)
           solver_data
           = Inr (final_data, two_pixel_solver)
       \<and> [1, 3] = ImageData flat_api final_data (image_size two_pixel_solver))"
proof -
  have n: "GetNumPixels stale_solver = 2"
    by (simp add: stale_solver_def example_defs)
  have i: "stale_solver\<lparr>irls_weights := [1, 1]\<rparr> = two_pixel_solver"
    by (simp add: stale_solver_def two_pixel_solver_def)
  have o: "observations stale_solver = [[1, 1]]"
    by (simp add: stale_solver_def two_pixel_solver_def)
  have p: "GetMutableDataPointer flat_api [1, 3 :: real] 0 = [1, 3]"
    by (simp add: flat_api_def)
  have r: "ImageData flat_api [1, 3] (image_size two_pixel_solver) = [1, 3]"
    by (simp add: flat_api_def two_pixel_solver_def)
  have h: "Solve flat_api one_step_minimizer stale_solver [1, 3] = Inr ([1, 3], two_pixel_solver)"
    by (simp add: Solve_unfold n i o p r vector_get_def setcontent_def one_step_minimizer_def
        replicate_2 objective_example AlglibSolverIterationCallback_def)
  have w: "irls_weights stale_solver = [7, 7, 7]"
    by (simp add: stale_solver_def)
  from h w Solve_initializes_weights [OF h] show ?thesis by blast
qed

subsection \<open>The solver object across an evaluation\<close>

lemma data_residual_loop_frame:
  "data_residual_loop api img image_index channel_index ps (residual_sum, residuals, solver)
     = Inr (residual_sum', residuals', solver') \<Longrightarrow> solver' = solver"
  by (induction ps arbitrary: residual_sum residuals)
    (auto simp: and_then_eq_Inr Let_def)

lemma scale_residuals_loop_frame:
  "scale_residuals_loop l i ps (residuals, residual_sum, solver)
     = Inr (residuals', residual_sum', solver') \<Longrightarrow> solver' = solver"
  by (induction ps arbitrary: residuals residual_sum)
    (auto simp: and_then_eq_Inr Let_def)

lemma partial_const_terms_loop_frame:
  "partial_const_terms_loop l residuals ps (terms, solver) = Inr (terms', solver') \<Longrightarrow>
   solver' = solver"
  by (induction ps arbitrary: terms) (auto simp: and_then_eq_Inr)

lemma regularizers_loop_frame:
  "regularizers_loop n data ks (residual_sum, gradient, solver)
     = Inr (residual_sum', gradient', solver') \<Longrightarrow> solver' = solver"
proof (induction ks arbitrary: residual_sum gradient)
  case Nil
  then show ?case by simp
next
  case (Cons k ks)
  from Cons.prems obtain reg :: Regularizer and l res rs1 s1 terms s2 g where
    scale: "scale_residuals_loop l k [0..<n]
              (reg_ApplyToImage reg data, residual_sum, solver) = Inr (res, rs1, s1)"
    and coeffs: "partial_const_terms_loop l res [0..<n] ([], s1) = Inr (terms, s2)"
    and rest: "regularizers_loop n data ks (rs1, g, s2)
                 = Inr (residual_sum', gradient', solver')"
    by (auto simp: and_then_eq_Inr Let_def)
  from scale_residuals_loop_frame [OF scale] partial_const_terms_loop_frame [OF coeffs]
  have "s2 = solver" by simp
  with Cons.IH rest show ?case by simp
qed

lemma ComputeDataTermAnalyticalDiff_frame:
  "ComputeDataTermAnalyticalDiff api solver image_index channel_index estimated_image_data
     = Inr (result, solver') \<Longrightarrow> solver' = solver"
  by (auto simp: ComputeDataTermAnalyticalDiff_def and_then_eq_Inr Let_def
      split: if_splits dest: data_residual_loop_frame)

lemma ComputeRegularizationAnalyticalDiff_frame:
  "ComputeRegularizationAnalyticalDiff solver estimated_image_data = Inr (result, solver') \<Longrightarrow>
   solver' = solver"
  by (auto simp: ComputeRegularizationAnalyticalDiff_def and_then_eq_Inr Let_def
      dest: regularizers_loop_frame)

subsection \<open>The objective function as a state transformer\<close>

lemma objective_variants:
  "AlglibObjectiveFunctionAnalyticalDiff api =
   AlglibObjectiveFunction
     (\<lambda>s image_index. ComputeDataTermAnalyticalDiff api s image_index 0)
     ComputeRegularizationAnalyticalDiff"
  by (intro ext)
    (simp add: AlglibObjectiveFunctionAnalyticalDiff_def AlglibObjectiveFunction_def)

lemma zero_gradient_loop_append:
  "zero_gradient_loop (ps @ qs) gradient =
   and_then (zero_gradient_loop ps gradient) (zero_gradient_loop qs)"
  by (induction ps arbitrary: gradient) (simp_all add: vector_set_def)

lemma zero_gradient_loop_closed:
  "zero_gradient_loop [0..<n] gradient =
   (if n \<le> length gradient then Inr (replicate n 0 @ drop n gradient) else Inl OutOfBounds)"
proof (induction n)
  case 0
  show ?case by simp
next
  case (Suc n)
  show ?case
  proof (cases "Suc n \<le> length gradient")
    case True
    then have "(replicate n 0 @ drop n gradient)[n := 0] =
               replicate (Suc n) 0 @ drop (Suc n) gradient"
      by (simp add: list_update_append replicate_append_same upd_conv_take_nth_drop
          drop_Suc [symmetric] flip: Cons_nth_drop_Suc)
    with True show ?thesis
      by (simp add: zero_gradient_loop_append Suc.IH vector_set_def)
  next
    case False
    then show ?thesis
      by (simp add: zero_gradient_loop_append Suc.IH vector_set_def)
  qed
qed

lemma add_to_gradient_loop_length:
  "add_to_gradient_loop other ps gradient = Inr gradient' \<Longrightarrow>
   length gradient' = length gradient"
  by (induction ps arbitrary: gradient)
    (auto simp: and_then_eq_Inr vector_set_def vector_get_def split: if_splits)

lemma add_to_gradient_loop_outside:
  "add_to_gradient_loop other ps gradient = Inr gradient' \<Longrightarrow> p \<notin> set ps \<Longrightarrow>
   gradient' ! p = gradient ! p"
  by (induction ps arbitrary: gradient)
    (auto simp: and_then_eq_Inr vector_set_def vector_get_def split: if_splits)

lemma add_to_gradient_loop_drop:
  assumes "add_to_gradient_loop other [0..<n] gradient = Inr gradient'"
  shows "drop n gradient' = drop n gradient"
proof (rule nth_equalityI)
  show "length (drop n gradient') = length (drop n gradient)"
    using add_to_gradient_loop_length [OF assms] by simp
next
  fix i
  assume "i < length (drop n gradient')"
  then have "n + i < length gradient'" by simp
  moreover have "n + i \<notin> set [0..<n]" by simp
  ultimately show "drop n gradient' ! i = drop n gradient ! i"
    using add_to_gradient_loop_outside [OF assms, of "n + i"]
      add_to_gradient_loop_length [OF assms]
    by simp
qed

lemma data_terms_loop_frame:
  assumes cdt: "\<And>t i p r t'. cdt t i p = Inr (r, t') \<Longrightarrow> t' = t"
  shows "data_terms_loop cdt n estimated_data is (residual_sum, gradient, s)
           = Inr (residual_sum', gradient', s') \<Longrightarrow>
         s' = s \<and> length gradient' = length gradient \<and> drop n gradient' = drop n gradient"
proof (induction "is" arbitrary: residual_sum gradient)
  case Nil
  then show ?case by simp
next
  case (Cons i "is")
  from Cons.prems obtain r t g where
    call: "cdt s (int i) (getcontent estimated_data) = Inr (r, t)"
    and add: "add_to_gradient_loop (snd r) [0..<n] gradient = Inr g"
    and rest: "data_terms_loop cdt n estimated_data is (residual_sum + fst r, g, t)
                 = Inr (residual_sum', gradient', s')"
    by (auto simp: and_then_eq_Inr Let_def)
  from cdt [OF call] have t: "t = s" .
  from Cons.IH [OF rest [unfolded t]] add_to_gradient_loop_length [OF add]
    add_to_gradient_loop_drop [OF add]
  show ?case by simp
qed

text \<open>What an objective function does once the gradient is zeroed.\<close>

lemma objective_unfold:
  "AlglibObjectiveFunction cdt creg x (residual_sum, gradient, s) =
   and_then (zero_gradient_loop [0..<GetNumPixels s] gradient) (\<lambda>gradient.
     and_then
       (data_terms_loop cdt (GetNumPixels s) x [0..<GetNumImages s] (0, gradient, s))
       (\<lambda>(residual_sum, gradient, t).
          and_then (creg t (getcontent x)) (\<lambda>(r, t).
            and_then (add_to_gradient_loop (snd r) [0..<GetNumPixels s] gradient)
              (\<lambda>gradient. Inr (residual_sum + fst r, gradient, t)))))"
  by (simp add: AlglibObjectiveFunction_def Let_def)

lemma objective_frame:
  assumes cdt: "\<And>t i p r t'. cdt t i p = Inr (r, t') \<Longrightarrow> t' = t"
    and creg: "\<And>t p r t'. creg t p = Inr (r, t') \<Longrightarrow> t' = t"
    and run: "AlglibObjectiveFunction cdt creg x (residual_sum, gradient, s)
                = Inr (residual_sum', gradient', s')"
  shows "s' = s" and "length gradient' = length gradient"
    and "drop (GetNumPixels s) gradient' = drop (GetNumPixels s) gradient"
    and "GetNumPixels s \<le> length gradient"
proof -
  from run obtain g0 rs1 g1 t1 r where
    z: "zero_gradient_loop [0..<GetNumPixels s] gradient = Inr g0"
    and d: "data_terms_loop cdt (GetNumPixels s) x [0..<GetNumImages s] (0, g0, s)
              = Inr (rs1, g1, t1)"
    and c: "creg t1 (getcontent x) = Inr (r, s')"
    and a: "add_to_gradient_loop (snd r) [0..<GetNumPixels s] g1 = Inr gradient'"
    by (auto simp: objective_unfold and_then_eq_Inr)
  from z have n: "GetNumPixels s \<le> length gradient"
    and g0: "g0 = replicate (GetNumPixels s) 0 @ drop (GetNumPixels s) gradient"
    by (auto simp: zero_gradient_loop_closed split: if_splits)
  from g0 n have g0l: "length g0 = length gradient"
    and g0d: "drop (GetNumPixels s) g0 = drop (GetNumPixels s) gradient"
    by simp_all
  note fr = data_terms_loop_frame [OF cdt d]
  from fr creg [OF c] show "s' = s" by simp
  show "length gradient' = length gradient"
    using fr add_to_gradient_loop_length [OF a] g0l by simp
  show "drop (GetNumPixels s) gradient' = drop (GetNumPixels s) gradient"
    using fr add_to_gradient_loop_drop [OF a] g0d by simp
  show "GetNumPixels s \<le> length gradient" by (rule n)
qed

lemma analytical_diff_frame:
  assumes "AlglibObjectiveFunctionAnalyticalDiff api x (residual_sum, gradient, s)
             = Inr (residual_sum', gradient', s')"
  shows "s' = s" and "length gradient' = length gradient"
    and "drop (GetNumPixels s) gradient' = drop (GetNumPixels s) gradient"
    and "GetNumPixels s \<le> length gradient"
proof -
  have cdt: "\<And>t i p r t'.
      ComputeDataTermAnalyticalDiff api t i 0 p = Inr (r, t') \<Longrightarrow> t' = t"
    by (rule ComputeDataTermAnalyticalDiff_frame)
  have creg: "\<And>t p r t'. ComputeRegularizationAnalyticalDiff t p = Inr (r, t') \<Longrightarrow> t' = t"
    by (rule ComputeRegularizationAnalyticalDiff_frame)
  note fr =
    objective_frame [of "\<lambda>s image_index. ComputeDataTermAnalyticalDiff api s image_index 0"
      ComputeRegularizationAnalyticalDiff, OF cdt creg assms [unfolded objective_variants]]
  show "s' = s" by (rule fr(1))
  show "length gradient' = length gradient" by (rule fr(2))
  show "drop (GetNumPixels s) gradient' = drop (GetNumPixels s) gradient" by (rule fr(3))
  show "GetNumPixels s \<le> length gradient" by (rule fr(4))
qed

lemma objective_buffers:
  assumes "length gradient1 = length gradient2"
    and "drop (GetNumPixels s) gradient1 = drop (GetNumPixels s) gradient2"
  shows "AlglibObjectiveFunction cdt creg x (residual_sum1, gradient1, s) =
         AlglibObjectiveFunction cdt creg x (residual_sum2, gradient2, s)"
  using assms by (simp add: objective_unfold zero_gradient_loop_closed)

text \<open>Claim C6. An evaluation of the objective and gradient leaves the weight table as
  it was. Each of the two member functions, \<open>ComputeDataTermAnalyticalDiff\<close> and
  \<open>ComputeRegularizationAnalyticalDiff\<close>, carries the solver through its loops and hands
  back, whenever it returns, the solver it was called on; so does the objective function
  that calls them for every image and for the regularizers. The weights are read and
  never written.\<close>

theorem objective_leaves_solver_unchanged:
  "(\<forall>result solver'.
      ComputeDataTermAnalyticalDiff api solver image_index channel_index estimated_image_data
        = Inr (result, solver')
      \<longrightarrow> irls_weights solver' = irls_weights solver \<and> solver' = solver)
   \<and> (\<forall>result solver'.
      ComputeRegularizationAnalyticalDiff solver estimated_image_data = Inr (result, solver')
      \<longrightarrow> irls_weights solver' = irls_weights solver \<and> solver' = solver)
   \<and> (\<forall>residual_sum' gradient' solver'.
      AlglibObjectiveFunctionAnalyticalDiff api estimated_data (residual_sum, gradient, solver)
        = Inr (residual_sum', gradient', solver')
      \<longrightarrow> irls_weights solver' = irls_weights solver \<and> solver' = solver)"
proof -
  have data: "irls_weights solver' = irls_weights solver \<and> solver' = solver"
    if "ComputeDataTermAnalyticalDiff api solver image_index channel_index
          estimated_image_data = Inr (result, solver')"
    for result solver'
    using ComputeDataTermAnalyticalDiff_frame [OF that] by simp
  have reg: "irls_weights solver' = irls_weights solver \<and> solver' = solver"
    if "ComputeRegularizationAnalyticalDiff solver estimated_image_data
          = Inr (result, solver')"
    for result solver'
    using ComputeRegularizationAnalyticalDiff_frame [OF that] by simp
  have objective: "irls_weights solver' = irls_weights solver \<and> solver' = solver"
    if "AlglibObjectiveFunctionAnalyticalDiff api estimated_data
          (residual_sum, gradient, solver) = Inr (residual_sum', gradient', solver')"
    for residual_sum' gradient' solver'
    using analytical_diff_frame(1) [OF that] by simp
  show ?thesis
  proof (intro conjI allI impI)
    fix result solver'
    assume "ComputeDataTermAnalyticalDiff api solver image_index channel_index
              estimated_image_data = Inr (result, solver')"
    from data [OF this]
    show "irls_weights solver' = irls_weights solver" and "solver' = solver"
      by simp_all
  next
    fix result solver'
    assume "ComputeRegularizationAnalyticalDiff solver estimated_image_data
              = Inr (result, solver')"
    from reg [OF this]
    show "irls_weights solver' = irls_weights solver" and "solver' = solver"
      by simp_all
  next
    fix residual_sum' gradient' solver'
    assume "AlglibObjectiveFunctionAnalyticalDiff api estimated_data
              (residual_sum, gradient, solver) = Inr (residual_sum', gradient', solver')"
    from objective [OF this]
    show "irls_weights solver' = irls_weights solver" and "solver' = solver"
      by simp_all
  qed
qed

theorem objective_leaves_solver_unchanged_witness:
  "ComputeDataTermAnalyticalDiff flat_api two_pixel_solver 0 0 (Some [1, 3])
     = Inr ((4, [0, 4]), two_pixel_solver)
   \<and> ComputeRegularizationAnalyticalDiff two_pixel_solver (Some [1, 3])
     = Inr ((20, [16, 12]), two_pixel_solver)
   \<and> AlglibObjectiveFunctionAnalyticalDiff flat_api [1, 3] (7, [5, 6], two_pixel_solver)
     = Inr (24, [16, 16], two_pixel_solver)
   \<and> irls_weights two_pixel_solver = [1, 1]"
proof -
  note frame =
    objective_leaves_solver_unchanged [where api = flat_api and solver = two_pixel_solver
      and image_index = 0 and channel_index = 0 and estimated_image_data = "Some [1, 3]"
      and estimated_data = "[1, 3]" and residual_sum = 7 and gradient = "[5, 6]"]
  have w: "irls_weights two_pixel_solver = [1, 1]"
    by (simp add: two_pixel_solver_def)
  show ?thesis
    using frame data_term_example regularization_example
      objective_example [of 7 5 6] w
    by simp
qed

text \<open>Claim C8. Two calls of the objective function with the same estimate and the same
  solver state return the same cost and the same gradient: a second call, made on the
  outputs that the first call left, returns exactly what the first returned.\<close>

theorem objective_is_repeatable:
  assumes "AlglibObjectiveFunctionAnalyticalDiff api estimated_data (residual_sum, gradient, s)
             = Inr (residual_sum', gradient', s')"
  shows "AlglibObjectiveFunctionAnalyticalDiff api estimated_data (residual_sum', gradient', s')
             = Inr (residual_sum', gradient', s')"
proof -
  note fr = analytical_diff_frame [OF assms]
  have "AlglibObjectiveFunctionAnalyticalDiff api estimated_data (residual_sum', gradient', s')
        = AlglibObjectiveFunctionAnalyticalDiff api estimated_data (residual_sum, gradient, s)"
    unfolding objective_variants fr(1)
    by (rule objective_buffers) (simp_all add: fr)
  with assms show ?thesis by simp
qed

theorem objective_is_repeatable_witness:
  "AlglibObjectiveFunctionAnalyticalDiff flat_api [1, 3] (7, [5, 6], two_pixel_solver)
     = Inr (24, [16, 16], two_pixel_solver)
   \<and> AlglibObjectiveFunctionAnalyticalDiff flat_api [1, 3] (24, [16, 16], two_pixel_solver)
     = Inr (24, [16, 16], two_pixel_solver)"
proof -
  have h: "AlglibObjectiveFunctionAnalyticalDiff flat_api [1, 3] (7, [5, 6], two_pixel_solver)
             = Inr (24, [16, 16], two_pixel_solver)"
    by (rule objective_example)
  show ?thesis
    using h objective_is_repeatable [OF h] by simp
qed

text \<open>Claim C9. Both objective functions zero the residual sum and every entry of the
  gradient before they add a term, so what they return does not depend on what the two
  outputs held at the call. The gradient output has \<open>GetNumPixels\<close> entries, one per
  variable of the minimizer.\<close>

theorem objective_independent_of_output_buffers:
  assumes "length gradient1 = GetNumPixels s" and "length gradient2 = GetNumPixels s"
  shows "AlglibObjectiveFunctionAnalyticalDiff api estimated_data (residual_sum1, gradient1, s)
         = AlglibObjectiveFunctionAnalyticalDiff api estimated_data (residual_sum2, gradient2, s)
       \<and> AlglibObjectiveFunction ComputeDataTerm ComputeRegularization estimated_data
           (residual_sum1, gradient1, s)
         = AlglibObjectiveFunction ComputeDataTerm ComputeRegularization estimated_data
           (residual_sum2, gradient2, s)"
  using assms by (simp add: objective_variants objective_buffers)

theorem objective_independent_of_output_buffers_witness:
  "length [5, 6 :: real] = GetNumPixels two_pixel_solver
   \<and> length [8, 9 :: real] = GetNumPixels two_pixel_solver
   \<and> AlglibObjectiveFunctionAnalyticalDiff flat_api [1, 3] (7, [5, 6], two_pixel_solver)
       = AlglibObjectiveFunctionAnalyticalDiff flat_api [1, 3] (0, [8, 9], two_pixel_solver)
   \<and> AlglibObjectiveFunction
         (\<lambda>s image_index. ComputeDataTermAnalyticalDiff flat_api s image_index 0)
         ComputeRegularizationAnalyticalDiff [1, 3] (7, [5, 6], two_pixel_solver)
       = AlglibObjectiveFunction
         (\<lambda>s image_index. ComputeDataTermAnalyticalDiff flat_api s image_index 0)
         ComputeRegularizationAnalyticalDiff [1, 3] (0, [8, 9], two_pixel_solver)"
proof -
  have h1: "length [5, 6 :: real] = GetNumPixels two_pixel_solver"
    by (simp add: example_defs)
  have h2: "length [8, 9 :: real] = GetNumPixels two_pixel_solver"
    by (simp add: example_defs)
  show ?thesis
    using h1 h2
      objective_independent_of_output_buffers [OF h1 h2, of flat_api "[1, 3]" 7 0
        "\<lambda>s image_index. ComputeDataTermAnalyticalDiff flat_api s image_index 0"
        ComputeRegularizationAnalyticalDiff]
    by simp
qed

subsection \<open>The regularization term\<close>

text \<open>Claim C1. The claim is that the regularization cost is the sum over the pixels of
  \<open>lambda\<^sup>2 * weight * residual\<^sup>2\<close>. The loop of lines 193 to 200 reads and overwrites
  \<^verbatim>\<open>residuals[i]\<close>, \<open>i\<close> being the counter of the regularizers, where the loop that
  follows reads \<^verbatim>\<open>residuals[pixel_index]\<close>. On two pixels with the residuals 1 and 3,
  the parameter 2 and the weights 1, the code returns the cost \<open>2\<^sup>2 + 4\<^sup>2 = 20\<close>; the sum
  of the claim is \<open>4 * 1 + 4 * 9 = 40\<close>.\<close>

theorem regularization_cost_on_two_pixels:
  "(\<exists>gradient. ComputeRegularizationAnalyticalDiff two_pixel_solver (Some [1, 3])
                  = Inr ((20, gradient), two_pixel_solver))
   \<and> spec_regularization_cost two_pixel_solver [1, 3] 0 = 40"
proof -
  have "spec_regularization_cost two_pixel_solver [1, 3] 0 = 40"
    by (simp add: spec_regularization_cost_def example_defs sum.atLeast_Suc_lessThan
        numeral_2_eq_2)
  with regularization_example show ?thesis by simp
qed

text \<open>Claim C2. The claim is that the coefficient of a pixel in the derivative pass is
  \<open>2 * lambda * weight\<close> times the scaled residual of that pixel. After the loop of lines
  193 to 200 only \<^verbatim>\<open>residuals[i]\<close> is scaled, once per pixel, and every other entry is
  the residual as \<^verbatim>\<open>ApplyToImage\<close> returned it. On the same input the code hands the
  coefficients 16 and 12 to \<^verbatim>\<open>GetDerivatives\<close>, which returns them as the gradient; the
  coefficients of the claim are 8 and 24.\<close>

theorem regularization_gradient_on_two_pixels:
  "(\<exists>cost. ComputeRegularizationAnalyticalDiff two_pixel_solver (Some [1, 3])
              = Inr ((cost, [16, 12]), two_pixel_solver))
   \<and> spec_upstream_coefficients two_pixel_solver [1, 3] 0 = [8, 24]
   \<and> spec_regularization_gradient two_pixel_solver [1, 3] = [8, 24]"
proof -
  have c: "spec_upstream_coefficients two_pixel_solver [1, 3] 0 = [8, 24]"
    by (simp add: spec_upstream_coefficients_def example_defs upt_0_2)
  have r: "regularizers two_pixel_solver = [(identity_regularizer, 2)]"
    by (simp add: two_pixel_solver_def)
  have n: "GetNumPixels two_pixel_solver = 2"
    by (simp add: example_defs)
  have "spec_regularization_gradient two_pixel_solver [1, 3] = [8, 24]"
    by (simp add: spec_regularization_gradient_def c r n upt_0_2 identity_regularizer_def)
  with c regularization_example show ?thesis by simp
qed

subsection \<open>The iteration callback\<close>

lemma minimizer_run_keeps_solver:
  "minimizer_run (AlglibObjectiveFunctionAnalyticalDiff api) AlglibSolverIterationCallback
     calls (residual_sum, gradient, s) = Inr (residual_sum', gradient', s') \<Longrightarrow> s' = s"
proof (induction calls arbitrary: residual_sum gradient)
  case Nil
  then show ?case by simp
next
  case (Cons call calls)
  show ?case
  proof (cases call)
    case (TrialStep x)
    with Cons.prems obtain r g t where
      f: "AlglibObjectiveFunctionAnalyticalDiff api x (residual_sum, gradient, s) = Inr (r, g, t)"
      and rest: "minimizer_run (AlglibObjectiveFunctionAnalyticalDiff api)
                   AlglibSolverIterationCallback calls (r, g, t)
                 = Inr (residual_sum', gradient', s')"
      by (auto simp: and_then_eq_Inr)
    from analytical_diff_frame(1) [OF f] have "t = s" .
    with rest Cons.IH show ?thesis by simp
  next
    case (AcceptedStep x f)
    with Cons.prems Cons.IH show ?thesis
      by (simp add: AlglibSolverIterationCallback_def)
  qed
qed

text \<open>Claim C4. The claim is that the callback which \<open>Solve\<close> registers calls
  \<^verbatim>\<open>UpdateIrlsWeights\<close> on the reported estimate. The callback that \<open>Solve\<close> registers
  is the one of the solver file, and it returns the solver as it came: after an accepted
  step at the estimate 1, 3 the weights are still the ones that \<open>Solve\<close> wrote, and the
  next evaluation uses them. The callback of the objective file hands the solver and the
  estimate to \<^verbatim>\<open>UpdateIrlsWeights\<close>.\<close>

theorem registered_callback_keeps_weights:
  "AlglibSolverIterationCallback [1, 3] 24 (initialize_irls_weights two_pixel_solver)
     = initialize_irls_weights two_pixel_solver
   \<and> irls_weights
       (AlglibSolverIterationCallback [1, 3] 24 (initialize_irls_weights two_pixel_solver))
     = [1, 1]
   \<and> (\<forall>UpdateIrlsWeights.
        AlglibSolverIterationCallback_irls_objective UpdateIrlsWeights [1, 3] 24
          (initialize_irls_weights two_pixel_solver)
        = UpdateIrlsWeights (initialize_irls_weights two_pixel_solver) (Some [1, 3]))
   \<and> minimizer_run (AlglibObjectiveFunctionAnalyticalDiff flat_api)
       AlglibSolverIterationCallback [TrialStep [1, 3], AcceptedStep [1, 3] 24, TrialStep [1, 3]]
       (0, [0, 0], initialize_irls_weights two_pixel_solver)
     = Inr (24, [16, 16], two_pixel_solver)"
proof -
  have i: "initialize_irls_weights two_pixel_solver = two_pixel_solver"
    by (simp add: initialize_irls_weights_def vector_resize_def vector_fill_def
        two_pixel_solver_def GetNumPixels_def)
  have w: "irls_weights two_pixel_solver = [1, 1]"
    by (simp add: two_pixel_solver_def)
  show ?thesis
    by (simp add: i w AlglibSolverIterationCallback_def
        AlglibSolverIterationCallback_irls_objective_def getcontent_def objective_example)
qed

end
